theory Spec2Isabelle
  imports Main "HOL-Library.Sublist"
begin

section \<open>JavaScript values\<close>

text \<open>
  The client exchanges JSON with the server and is called with JavaScript values. A JSON
  value is a \<open>json\<close>; a JavaScript value is a \<open>json option\<close>, where \<open>None\<close> is
  \<^verbatim>\<open>undefined\<close> (an absent argument, a missing property). Numbers are the integers that print in plain
  decimal notation (magnitude below \<open>10^21\<close>). A parsed JSON object is an association list
  read with \<open>map_of\<close>.
\<close>

datatype json =
    JNull
  | JBool bool
  | JNum int
  | JStr string
  | JArr "json list"
  | JObj "(string \<times> json) list"

type_synonym jsval = "json option"

text \<open>ToBoolean, as used by \<^verbatim>\<open>if (x)\<close> and \<^verbatim>\<open>x || y\<close>.\<close>

fun truthy :: "jsval \<Rightarrow> bool" where
  "truthy None = False"
| "truthy (Some JNull) = False"
| "truthy (Some (JBool b)) = b"
| "truthy (Some (JNum n)) = (n \<noteq> 0)"
| "truthy (Some (JStr s)) = (s \<noteq> [])"
| "truthy (Some (JArr xs)) = True"
| "truthy (Some (JObj ps)) = True"

text \<open>\<^verbatim>\<open>a || b\<close>\<close>

definition js_or :: "jsval \<Rightarrow> jsval \<Rightarrow> jsval" where
  "js_or a b = (if truthy a then a else b)"

text \<open>A default parameter initialiser \<^verbatim>\<open>p = d\<close>: used when the argument is \<^verbatim>\<open>undefined\<close> only.\<close>

definition default_param :: "jsval \<Rightarrow> json \<Rightarrow> jsval" where
  "default_param a d = (case a of None \<Rightarrow> Some d | Some v \<Rightarrow> Some v)"

text \<open>Decimal rendering of a number, as in a template literal or \<^verbatim>\<open>String(n)\<close>.\<close>

fun digits :: "nat \<Rightarrow> string" where
  "digits n =
     (if n < 10 then [''0123456789'' ! n]
      else digits (n div 10) @ [''0123456789'' ! (n mod 10)])"

declare digits.simps [simp del]

definition num_to_string :: "int \<Rightarrow> string" where
  "num_to_string i = (if i < 0 then CHR ''-'' # digits (nat (- i)) else digits (nat i))"

fun join_comma :: "string list \<Rightarrow> string" where
  "join_comma [] = []"
| "join_comma [s] = s"
| "join_comma (s # t # ss) = s @ CHR '','' # join_comma (t # ss)"

text \<open>ToString on a JSON value: what \<^verbatim>\<open>new Error(v)\<close> and \<^verbatim>\<open>String(v)\<close> store. An object
  is rendered by \<^verbatim>\<open>Object.prototype.toString\<close>: one that has a \<^verbatim>\<open>toString\<close> or
  \<^verbatim>\<open>valueOf\<close> property of its own, on which the conversion throws, is outside the model.\<close>

fun to_string :: "json \<Rightarrow> string" where
  "to_string JNull = ''null''"
| "to_string (JBool b) = (if b then ''true'' else ''false'')"
| "to_string (JNum n) = num_to_string n"
| "to_string (JStr s) = s"
| "to_string (JArr xs) =
     join_comma (map (\<lambda>x. if x = JNull then [] else to_string x) xs)"
| "to_string (JObj ps) = ''[object Object]''"

definition js_string :: "jsval \<Rightarrow> string" where
  "js_string v = (case v of None \<Rightarrow> ''undefined'' | Some j \<Rightarrow> to_string j)"

section \<open>Failures\<close>

text \<open>
  The Error instances that occur: \<open>Error m\<close> is \<^verbatim>\<open>new Error(m)\<close>; \<open>TypeError p\<close> is the
  platform's error for reading property \<open>p\<close> of \<^verbatim>\<open>null\<close> or \<^verbatim>\<open>undefined\<close>;
  \<open>SyntaxError\<close> is the rejection of \<^verbatim>\<open>response.json()\<close> on a body that is not JSON;
  \<open>OtherError m\<close> is any other Error instance (a network failure of \<^verbatim>\<open>fetch\<close>).
  A thrown value is an Error instance or some other value.
\<close>

datatype js_error =
    Error string
  | TypeError string
  | SyntaxError
  | OtherError string

datatype thrown = Err js_error | NonErr jsval

text \<open>Reading property \<open>name\<close> (one that no prototype defines, as \<^verbatim>\<open>detail\<close> and
  \<^verbatim>\<open>content\<close>) of a value.\<close>

definition get_prop :: "jsval \<Rightarrow> string \<Rightarrow> thrown + jsval" where
  "get_prop v name =
     (case v of
        None \<Rightarrow> Inl (Err (TypeError name))
      | Some JNull \<Rightarrow> Inl (Err (TypeError name))
      | Some (JObj ps) \<Rightarrow> Inr (map_of ps name)
      | Some _ \<Rightarrow> Inr None)"

section \<open>The request client\<close>

record client =
  baseUrl :: string
  apiKey :: "string option"

text \<open>\<^verbatim>\<open>baseUrl.replace(/\/$/, '')\<close>: the pattern matches a slash at the end of the input.\<close>

definition strip_trailing_slash :: "string \<Rightarrow> string" where
  "strip_trailing_slash s = (if s \<noteq> [] \<and> last s = CHR ''/'' then butlast s else s)"

definition new_client :: "string \<Rightarrow> string option \<Rightarrow> client" where
  "new_client base key = \<lparr>baseUrl = strip_trailing_slash base, apiKey = key\<rparr>"

text \<open>
  The options bundle of \<^verbatim>\<open>request\<close>, the arguments handed to \<^verbatim>\<open>fetch\<close>, and the response.
  A body is JSON text, represented by the JSON value it denotes. \<open>body_json\<close> is what
  \<^verbatim>\<open>response.json()\<close> resolves to, \<open>None\<close> when the body is not JSON and it rejects.
\<close>

record options =
  opt_method :: "string option"
  opt_body :: "json option"
  opt_headers :: "(string \<rightharpoonup> string) option"

record fetch_call =
  url :: string
  http_method :: "string option"
  body :: "json option"
  headers :: "string \<rightharpoonup> string"

record response =
  status :: nat
  body_json :: "json option"

type_synonym transport = "fetch_call \<Rightarrow> thrown + response"

definition ok :: "response \<Rightarrow> bool" where
  "ok r = (200 \<le> status r \<and> status r \<le> 299)"

text \<open>\<^verbatim>\<open>{ ...h }\<close> of an absent \<open>h\<close> adds nothing.\<close>

definition spread :: "(string \<rightharpoonup> string) option \<Rightarrow> (string \<rightharpoonup> string)" where
  "spread h = (case h of None \<Rightarrow> Map.empty | Some m \<Rightarrow> m)"

text \<open>
  \<^verbatim>\<open>request(endpoint, options)\<close>. It performs one \<^verbatim>\<open>fetch\<close>; the model returns the
  arguments of that call together with the outcome of the promise (\<open>Inl\<close> a rejection).
\<close>

definition request ::
  "transport \<Rightarrow> client \<Rightarrow> string \<Rightarrow> options \<Rightarrow> fetch_call \<times> (thrown + json)" where
  "request fetch c endpoint opts =
     (let headers0 = [''Content-Type'' \<mapsto> ''application/json''] ++ spread (opt_headers opts);
          headers1 = (case apiKey c of
                        None \<Rightarrow> headers0
                      | Some k \<Rightarrow> if k \<noteq> [] then headers0(''X-API-Key'' \<mapsto> k) else headers0);
          call = \<lparr>url = baseUrl c @ endpoint, http_method = opt_method opts,
                  body = opt_body opts, headers = headers1\<rparr>
      in (call,
          case fetch call of
            Inl t \<Rightarrow> Inl t
          | Inr response \<Rightarrow>
              if \<not> ok response then
                (let error = (case body_json response of
                                None \<Rightarrow> JObj [(''detail'', JStr ''Unknown error'')]
                              | Some j \<Rightarrow> j)
                 in case get_prop (Some error) ''detail'' of
                      Inl t \<Rightarrow> Inl t
                    | Inr detail \<Rightarrow>
                        Inl (Err (Error (js_string
                          (js_or detail (Some (JStr (''HTTP '' @ digits (status response)))))))))
              else (case body_json response of
                      None \<Rightarrow> Inl (Err SyntaxError)
                    | Some j \<Rightarrow> Inr j)))"

text \<open>The message of a failure, where this code or the transport worded it; the wording of
  the platform's own TypeError and SyntaxError is not modelled.\<close>

fun message :: "thrown \<Rightarrow> string option" where
  "message (Err (Error m)) = Some m"
| "message (Err (OtherError m)) = Some m"
| "message t = None"

text \<open>The convenience operations without a body.\<close>

definition no_options :: options where
  "no_options = \<lparr>opt_method = None, opt_body = None, opt_headers = None\<rparr>"

definition getVoiceProfile :: "transport \<Rightarrow> client \<Rightarrow> fetch_call \<times> (thrown + json)" where
  "getVoiceProfile fetch c = request fetch c ''/voice-profile'' no_options"

definition getFormats :: "transport \<Rightarrow> client \<Rightarrow> fetch_call \<times> (thrown + json)" where
  "getFormats fetch c = request fetch c ''/formats'' no_options"

text \<open>
  \<^verbatim>\<open>JSON.stringify\<close> of an object literal, given as its properties in order: a property
  whose value is \<^verbatim>\<open>undefined\<close> is left out.
\<close>

fun defined_props :: "(string \<times> jsval) list \<Rightarrow> (string \<times> json) list" where
  "defined_props [] = []"
| "defined_props ((k, None) # ps) = defined_props ps"
| "defined_props ((k, Some v) # ps) = (k, v) # defined_props ps"

definition JSON_stringify :: "(string \<times> jsval) list \<Rightarrow> json" where
  "JSON_stringify ps = JObj (defined_props ps)"

text \<open>
  \<^verbatim>\<open>generate(topic, format = 'article', additionalContext = '', promptOnly = false)\<close>
  of the JavaScript client. The arguments are JavaScript values; \<open>None\<close> is an argument
  left out.
\<close>

definition generate_js ::
  "transport \<Rightarrow> client \<Rightarrow> jsval \<Rightarrow> jsval \<Rightarrow> jsval \<Rightarrow> jsval \<Rightarrow> fetch_call \<times> (thrown + json)" where
  "generate_js fetch c topic format0 additionalContext0 promptOnly0 =
     (let format = default_param format0 (JStr ''article'');
          additionalContext = default_param additionalContext0 (JStr []);
          promptOnly = default_param promptOnly0 (JBool False)
      in request fetch c ''/generate''
           \<lparr>opt_method = Some ''POST'',
            opt_body = Some (JSON_stringify
              [(''topic'', topic),
               (''format'', format),
               (''additional_context'', additionalContext),
               (''prompt_only'', promptOnly)]),
            opt_headers = None\<rparr>)"

text \<open>
  \<^verbatim>\<open>generate(topic, format = 'article', additionalContext?, promptOnly = false)\<close> of the
  TypeScript client, which sends \<^verbatim>\<open>additionalContext || ''\<close>.
\<close>

definition generate_ts ::
  "transport \<Rightarrow> client \<Rightarrow> jsval \<Rightarrow> jsval \<Rightarrow> jsval \<Rightarrow> jsval \<Rightarrow> fetch_call \<times> (thrown + json)" where
  "generate_ts fetch c topic format0 additionalContext promptOnly0 =
     (let format = default_param format0 (JStr ''article'');
          promptOnly = default_param promptOnly0 (JBool False)
      in request fetch c ''/generate''
           \<lparr>opt_method = Some ''POST'',
            opt_body = Some (JSON_stringify
              [(''topic'', topic),
               (''format'', format),
               (''additional_context'', js_or additionalContext (Some (JStr []))),
               (''prompt_only'', promptOnly)]),
            opt_headers = None\<rparr>)"

text \<open>\<^verbatim>\<open>const response = await p; return response.content\<close>\<close>

definition then_content :: "thrown + json \<Rightarrow> thrown + jsval" where
  "then_content p =
     (case p of Inl t \<Rightarrow> Inl t | Inr response \<Rightarrow> get_prop (Some response) ''content'')"

definition generateArticle_js ::
  "transport \<Rightarrow> client \<Rightarrow> jsval \<Rightarrow> jsval \<Rightarrow> fetch_call \<times> (thrown + jsval)" where
  "generateArticle_js fetch c topic context0 =
     (let context = default_param context0 (JStr []);
          (call, p) = generate_js fetch c topic (Some (JStr ''article'')) context None
      in (call, then_content p))"

definition generateArticle_ts ::
  "transport \<Rightarrow> client \<Rightarrow> jsval \<Rightarrow> jsval \<Rightarrow> fetch_call \<times> (thrown + jsval)" where
  "generateArticle_ts fetch c topic context =
     (let (call, p) = generate_ts fetch c topic (Some (JStr ''article'')) context None
      in (call, then_content p))"

section \<open>The lifecycle adapter\<close>

text \<open>
  The three state cells of \<^verbatim>\<open>useShayaContent\<close>; \<open>error = None\<close> is \<^verbatim>\<open>null\<close>. A tracked
  method is modelled by the request it sends, the state once its synchronous prefix has
  run and the network call is outstanding, the state when it has settled, and the outcome
  of its promise.
\<close>

record lifecycle =
  isLoading :: bool
  error :: "js_error option"
  content :: jsval

definition initial :: lifecycle where
  "initial = \<lparr>isLoading = False, error = None, content = Some JNull\<rparr>"

record hook_options =
  hk_baseUrl :: string
  hk_apiKey :: "string option"

record 'a tracked =
  sent :: fetch_call
  in_flight :: lifecycle
  settled :: lifecycle
  outcome :: "thrown + 'a"

text \<open>\<^verbatim>\<open>err instanceof Error ? err : new Error(String(err))\<close>\<close>

fun normalize :: "thrown \<Rightarrow> js_error" where
  "normalize (Err e) = e"
| "normalize (NonErr v) = Error (js_string v)"

text \<open>The \<^verbatim>\<open>catch\<close> block followed by the \<^verbatim>\<open>finally\<close> block, from the in-flight state.\<close>

definition catch_finally :: "fetch_call \<Rightarrow> lifecycle \<Rightarrow> thrown \<Rightarrow> 'a tracked" where
  "catch_finally call s2 err =
     (let e = normalize err;
          s3 = s2\<lparr>error := Some e\<rparr>
      in \<lparr>sent = call, in_flight = s2, settled = s3\<lparr>isLoading := False\<rparr>,
          outcome = Inl (Err e)\<rparr>)"

definition hook_generate ::
  "transport \<Rightarrow> hook_options \<Rightarrow> lifecycle \<Rightarrow> jsval \<Rightarrow> jsval \<Rightarrow> jsval \<Rightarrow> json tracked" where
  "hook_generate fetch options s topic format0 additionalContext =
     (let client = new_client (hk_baseUrl options) (hk_apiKey options);
          format = default_param format0 (JStr ''article'');
          s1 = s\<lparr>isLoading := True\<rparr>;
          s2 = s1\<lparr>error := None\<rparr>;
          (call, p) = generate_ts fetch client topic format additionalContext None
      in case p of
           Inl err \<Rightarrow> catch_finally call s2 err
         | Inr response \<Rightarrow>
             (case get_prop (Some response) ''content'' of
                Inl err \<Rightarrow> catch_finally call s2 err
              | Inr c \<Rightarrow>
                  (let s3 = s2\<lparr>content := c\<rparr>
                   in \<lparr>sent = call, in_flight = s2, settled = s3\<lparr>isLoading := False\<rparr>,
                       outcome = Inr response\<rparr>)))"

definition hook_getPrompt ::
  "transport \<Rightarrow> hook_options \<Rightarrow> lifecycle \<Rightarrow> jsval \<Rightarrow> jsval \<Rightarrow> jsval \<Rightarrow> jsval tracked" where
  "hook_getPrompt fetch options s topic format0 context =
     (let client = new_client (hk_baseUrl options) (hk_apiKey options);
          format = default_param format0 (JStr ''article'');
          s1 = s\<lparr>isLoading := True\<rparr>;
          s2 = s1\<lparr>error := None\<rparr>;
          (call, p) = generate_ts fetch client topic format context (Some (JBool True))
      in case p of
           Inl err \<Rightarrow> catch_finally call s2 err
         | Inr response \<Rightarrow>
             (case get_prop (Some response) ''content'' of
                Inl err \<Rightarrow> catch_finally call s2 err
              | Inr c \<Rightarrow>
                  (let s3 = s2\<lparr>content := c\<rparr>
                   in \<lparr>sent = call, in_flight = s2, settled = s3\<lparr>isLoading := False\<rparr>,
                       outcome = Inr c\<rparr>)))"

definition hook_getVoiceProfile ::
  "transport \<Rightarrow> hook_options \<Rightarrow> lifecycle \<Rightarrow> json tracked" where
  "hook_getVoiceProfile fetch options s =
     (let client = new_client (hk_baseUrl options) (hk_apiKey options);
          s1 = s\<lparr>isLoading := True\<rparr>;
          s2 = s1\<lparr>error := None\<rparr>;
          (call, p) = getVoiceProfile fetch client
      in case p of
           Inl err \<Rightarrow> catch_finally call s2 err
         | Inr r \<Rightarrow> \<lparr>sent = call, in_flight = s2, settled = s2\<lparr>isLoading := False\<rparr>,
                     outcome = Inr r\<rparr>)"

definition hook_getFormats ::
  "transport \<Rightarrow> hook_options \<Rightarrow> lifecycle \<Rightarrow> json tracked" where
  "hook_getFormats fetch options s =
     (let client = new_client (hk_baseUrl options) (hk_apiKey options);
          s1 = s\<lparr>isLoading := True\<rparr>;
          s2 = s1\<lparr>error := None\<rparr>;
          (call, p) = getFormats fetch client
      in case p of
           Inl err \<Rightarrow> catch_finally call s2 err
         | Inr r \<Rightarrow> \<lparr>sent = call, in_flight = s2, settled = s2\<lparr>isLoading := False\<rparr>,
                     outcome = Inr r\<rparr>)"

text \<open>The format shorthands of the hook await the hook's \<^verbatim>\<open>generate\<close> and read
  \<^verbatim>\<open>content\<close> off its result.\<close>

definition hook_shorthand ::
  "string \<Rightarrow> transport \<Rightarrow> hook_options \<Rightarrow> lifecycle \<Rightarrow> jsval \<Rightarrow> jsval \<Rightarrow> jsval tracked" where
  "hook_shorthand fmt fetch options s topic context =
     (let t = hook_generate fetch options s topic (Some (JStr fmt)) context
      in \<lparr>sent = sent t, in_flight = in_flight t, settled = settled t,
          outcome = then_content (outcome t)\<rparr>)"

definition hook_generateArticle ::
  "transport \<Rightarrow> hook_options \<Rightarrow> lifecycle \<Rightarrow> jsval \<Rightarrow> jsval \<Rightarrow> jsval tracked" where
  "hook_generateArticle = hook_shorthand ''article''"

definition hook_generateSocialPost ::
  "transport \<Rightarrow> hook_options \<Rightarrow> lifecycle \<Rightarrow> jsval \<Rightarrow> jsval \<Rightarrow> jsval tracked" where
  "hook_generateSocialPost = hook_shorthand ''social_media''"

definition hook_generateClassOutline ::
  "transport \<Rightarrow> hook_options \<Rightarrow> lifecycle \<Rightarrow> jsval \<Rightarrow> jsval \<Rightarrow> jsval tracked" where
  "hook_generateClassOutline = hook_shorthand ''class_outline''"

definition hook_generateReflection ::
  "transport \<Rightarrow> hook_options \<Rightarrow> lifecycle \<Rightarrow> jsval \<Rightarrow> jsval \<Rightarrow> jsval tracked" where
  "hook_generateReflection = hook_shorthand ''short_reflection''"

definition clearError :: "lifecycle \<Rightarrow> lifecycle" where
  "clearError s = s\<lparr>error := None\<rparr>"

definition clearContent :: "lifecycle \<Rightarrow> lifecycle" where
  "clearContent s = s\<lparr>content := Some JNull\<rparr>"

text \<open>Transports for concrete runs: one whose \<^verbatim>\<open>fetch\<close> rejects, one that answers every
  request with a given response.\<close>

definition offline :: transport where
  "offline call = Inl (Err (OtherError ''Failed to fetch''))"

definition reply :: "response \<Rightarrow> transport" where
  "reply r call = Inr r"

section \<open>Properties of the request client\<close>

subsection \<open>Base address\<close>

lemma strip_trailing_slash_snoc: "strip_trailing_slash (b @ ''/'') = b"
  by (simp add: strip_trailing_slash_def)

lemma strip_trailing_slash_id:
  "b = [] \<or> last b \<noteq> CHR ''/'' \<Longrightarrow> strip_trailing_slash b = b"
  by (auto simp add: strip_trailing_slash_def)

lemma request_url: "url (fst (request fetch c endpoint opts)) = baseUrl c @ endpoint"
  by (simp add: request_def Let_def)

text \<open>
  C7: normalisation strips exactly one trailing slash if present: an address followed by a
  slash normalises to that address, whatever it ends in, and an address that does not
  end in a slash is left as it is. So the clients constructed from \<^verbatim>\<open>https://x/\<close> and from
  \<^verbatim>\<open>https://x\<close>, and likewise from \<open>b/\<close> and \<open>b\<close> for every \<open>b\<close> without a trailing
  slash, are the same client and send every request to the same URL, the base followed
  by the endpoint path; normalising the stored base again changes nothing.
\<close>

theorem base_address_normalization:
  "strip_trailing_slash (b @ ''/'') = b \<and>
   baseUrl (new_client (b @ ''/'') key) = b \<and>
   url (fst (request fetch (new_client (b @ ''/'') key) endpoint opts)) = b @ endpoint \<and>
   ((b = [] \<or> last b \<noteq> CHR ''/'') \<longrightarrow>
      strip_trailing_slash b = b \<and>
      new_client (b @ ''/'') key = new_client b key \<and>
      request fetch (new_client (b @ ''/'') key) endpoint opts
        = request fetch (new_client b key) endpoint opts \<and>
      url (fst (request fetch (new_client b key) endpoint opts)) = b @ endpoint \<and>
      strip_trailing_slash (baseUrl (new_client (b @ ''/'') key))
        = baseUrl (new_client (b @ ''/'') key)) \<and>
   new_client ''https://x/'' key = new_client ''https://x'' key \<and>
   url (fst (request fetch (new_client ''https://x/'' key) endpoint opts))
     = url (fst (request fetch (new_client ''https://x'' key) endpoint opts)) \<and>
   url (fst (request fetch (new_client ''https://x'' key) endpoint opts))
     = ''https://x'' @ endpoint"
proof -
  have one: "strip_trailing_slash (b @ ''/'') = b"
    by (rule strip_trailing_slash_snoc)
  have base: "baseUrl (new_client (b @ ''/'') key) = b"
    by (simp add: new_client_def one)
  have rest: "strip_trailing_slash b = b \<and>
      new_client (b @ ''/'') key = new_client b key \<and>
      request fetch (new_client (b @ ''/'') key) endpoint opts
        = request fetch (new_client b key) endpoint opts \<and>
      url (fst (request fetch (new_client b key) endpoint opts)) = b @ endpoint \<and>
      strip_trailing_slash (baseUrl (new_client (b @ ''/'') key))
        = baseUrl (new_client (b @ ''/'') key)"
    if "b = [] \<or> last b \<noteq> CHR ''/''"
  proof -
    have none: "strip_trailing_slash b = b"
      using that by (rule strip_trailing_slash_id)
    have same: "new_client (b @ ''/'') key = new_client b key"
      unfolding new_client_def one none ..
    show ?thesis
      using none same base by (simp add: request_url)
  qed
  have x: "new_client ''https://x/'' key = new_client ''https://x'' key"
    by (simp add: new_client_def strip_trailing_slash_def)
  have xb: "baseUrl (new_client ''https://x'' key) = ''https://x''"
    by (simp add: new_client_def strip_trailing_slash_def)
  show ?thesis
    using one base rest x xb by (simp add: request_url)
qed

theorem base_address_normalization_witness:
  "strip_trailing_slash ''https://x/'' = ''https://x'' \<and>
   strip_trailing_slash ''https://x'' = ''https://x'' \<and>
   new_client ''https://x/'' None = new_client ''https://x'' None \<and>
   url (fst (request offline (new_client ''https://x/'' None) ''/health'' no_options))
     = ''https://x/health'' \<and>
   url (fst (request offline (new_client ''https://x'' None) ''/health'' no_options))
     = ''https://x/health''"
  using base_address_normalization [of "''https://x''" None offline "''/health''" no_options]
  by simp

subsection \<open>Headers\<close>

text \<open>
  C1, as stated, has the caller's \<^verbatim>\<open>X-API-Key\<close> dispatched on a client constructed with
  a credential. The credential is what is dispatched.
\<close>

theorem caller_api_key_overridden:
  "headers (fst (request offline (new_client ''https://x'' (Some ''secret'')) ''/generate''
      \<lparr>opt_method = None, opt_body = None,
       opt_headers = Some [''X-API-Key'' \<mapsto> ''mine'']\<rparr>)) ''X-API-Key''
   = Some ''secret''"
  by (simp add: request_def new_client_def Let_def spread_def)

text \<open>
  C1 (amended): the header map sent with every request, with or without caller-supplied
  headers, is \<^verbatim>\<open>Content-Type: application/json\<close> overlaid with the caller's headers, and
  then, when a non-empty credential is configured, \<^verbatim>\<open>X-API-Key\<close> set to the credential;
  it holds nothing else. So a caller's header is dispatched with the caller's value for
  every name (\<^verbatim>\<open>Content-Type\<close> included) but \<^verbatim>\<open>X-API-Key\<close> on a client with a
  credential, where the credential is dispatched; \<^verbatim>\<open>Content-Type\<close> has its default when
  the caller leaves it out.
\<close>

theorem request_headers_precedence:
  "(\<forall>name. headers (fst (request fetch c endpoint opts)) name =
      (if name = ''X-API-Key'' \<and> apiKey c \<noteq> None \<and> apiKey c \<noteq> Some [] then apiKey c
       else case (case opt_headers opts of None \<Rightarrow> None | Some h \<Rightarrow> h name) of
              Some v \<Rightarrow> Some v
            | None \<Rightarrow> if name = ''Content-Type'' then Some ''application/json'' else None)) \<and>
   (\<forall>h name v. opt_headers opts = Some h \<and> h name = Some v \<and>
        (name \<noteq> ''X-API-Key'' \<or> apiKey c = None \<or> apiKey c = Some []) \<longrightarrow>
        headers (fst (request fetch c endpoint opts)) name = Some v) \<and>
   (\<forall>k. apiKey c = Some k \<and> k \<noteq> [] \<longrightarrow>
        headers (fst (request fetch c endpoint opts)) ''X-API-Key'' = Some k) \<and>
   (opt_headers opts = None \<longrightarrow>
        headers (fst (request fetch c endpoint opts)) ''Content-Type''
          = Some ''application/json'' \<and>
        headers (fst (request fetch c endpoint opts)) ''X-API-Key''
          = (if apiKey c = Some [] then None else apiKey c))"
proof -
  have full: "headers (fst (request fetch c endpoint opts)) name =
      (if name = ''X-API-Key'' \<and> apiKey c \<noteq> None \<and> apiKey c \<noteq> Some [] then apiKey c
       else case (case opt_headers opts of None \<Rightarrow> None | Some h \<Rightarrow> h name) of
              Some v \<Rightarrow> Some v
            | None \<Rightarrow> if name = ''Content-Type'' then Some ''application/json'' else None)"
    for name
    by (auto simp add: request_def Let_def spread_def map_add_def split: option.splits)
  have caller: "headers (fst (request fetch c endpoint opts)) name = Some v"
    if "opt_headers opts = Some h" and "h name = Some v"
      and "name \<noteq> ''X-API-Key'' \<or> apiKey c = None \<or> apiKey c = Some []" for h name v
    using that by (auto simp add: full)
  have credential: "headers (fst (request fetch c endpoint opts)) ''X-API-Key'' = Some k"
    if "apiKey c = Some k" and "k \<noteq> []" for k
    using that by (simp add: full)
  have defaults: "headers (fst (request fetch c endpoint opts)) ''Content-Type''
          = Some ''application/json'' \<and>
        headers (fst (request fetch c endpoint opts)) ''X-API-Key''
          = (if apiKey c = Some [] then None else apiKey c)"
    if "opt_headers opts = None"
    using that by (auto simp add: full)
  show ?thesis
    using full caller credential defaults by blast
qed

theorem request_headers_precedence_witness:
  "headers (fst (request offline (new_client ''https://x'' (Some ''secret'')) ''/generate''
      \<lparr>opt_method = None, opt_body = None,
       opt_headers = Some [''Content-Type'' \<mapsto> ''text/plain'']\<rparr>)) ''Content-Type''
     = Some ''text/plain'' \<and>
   headers (fst (request offline (new_client ''https://x'' (Some ''secret'')) ''/generate''
      \<lparr>opt_method = None, opt_body = None,
       opt_headers = Some [''Content-Type'' \<mapsto> ''text/plain'']\<rparr>)) ''X-API-Key''
     = Some ''secret'' \<and>
   headers (fst (request offline (new_client ''https://x'' (Some ''secret'')) ''/generate''
      \<lparr>opt_method = None, opt_body = None,
       opt_headers = Some [''Content-Type'' \<mapsto> ''text/plain'']\<rparr>)) ''Accept''
     = None \<and>
   headers (fst (request offline (new_client ''https://x'' None) ''/health'' no_options))
      ''Content-Type''
     = Some ''application/json'' \<and>
   headers (fst (request offline (new_client ''https://x'' None) ''/health'' no_options))
      ''X-API-Key''
     = None"
  using request_headers_precedence
    [of offline "new_client ''https://x'' (Some ''secret'')" "''/generate''"
        "\<lparr>opt_method = None, opt_body = None,
          opt_headers = Some [''Content-Type'' \<mapsto> ''text/plain'']\<rparr>"]
    request_headers_precedence
    [of offline "new_client ''https://x'' None" "''/health''" no_options]
  by (simp add: new_client_def no_options_def)

subsection \<open>Failures of a response outside 2xx\<close>

lemma request_not_ok:
  assumes "fetch (fst (request fetch c endpoint opts)) = Inr r" and "\<not> ok r"
  shows "snd (request fetch c endpoint opts) =
     (case get_prop (Some (case body_json r of
                             None \<Rightarrow> JObj [(''detail'', JStr ''Unknown error'')]
                           | Some j \<Rightarrow> j)) ''detail'' of
        Inl t \<Rightarrow> Inl t
      | Inr detail \<Rightarrow>
          Inl (Err (Error (js_string
            (js_or detail (Some (JStr (''HTTP '' @ digits (status r)))))))))"
  using assms by (simp add: request_def Let_def)

text \<open>
  C2, as stated, puts the status code in the message when the body is not JSON. A 500 with
  such a body fails with the message \<^verbatim>\<open>Unknown error\<close>, in which 500 does not occur.
\<close>

theorem status_absent_from_unparsable_failure:
  "snd (request (reply \<lparr>status = 500, body_json = None\<rparr>) (new_client ''https://x'' None)
         ''/health'' no_options)
     = Inl (Err (Error ''Unknown error'')) \<and>
   \<not> sublist (digits 500) ''Unknown error''"
proof
  show "snd (request (reply \<lparr>status = 500, body_json = None\<rparr>) (new_client ''https://x'' None)
         ''/health'' no_options) = Inl (Err (Error ''Unknown error''))"
    by (simp add: request_def reply_def ok_def get_prop_def js_or_def js_string_def Let_def)
  show "\<not> sublist (digits 500) ''Unknown error''"
    by code_simp
qed

text \<open>
  C2 (amended): for every response outside 2xx whose body cannot be parsed as JSON, the
  failure raised is an Error with the message \<^verbatim>\<open>Unknown error\<close>, whatever the status. The
  message is \<^verbatim>\<open>HTTP\<close> followed by the status code, and so contains it, when the body
  parses as a JSON object with no truthy \<^verbatim>\<open>detail\<close>.
\<close>

theorem unparsable_body_message:
  assumes "fetch (fst (request fetch c endpoint opts)) = Inr r" and "\<not> ok r"
  shows "(body_json r = None \<longrightarrow>
            snd (request fetch c endpoint opts) = Inl (Err (Error ''Unknown error'')) \<and>
            message (Err (Error ''Unknown error'')) = Some ''Unknown error'') \<and>
         (\<forall>ps. body_json r = Some (JObj ps) \<and> \<not> truthy (map_of ps ''detail'') \<longrightarrow>
            snd (request fetch c endpoint opts)
              = Inl (Err (Error (''HTTP '' @ digits (status r)))) \<and>
            sublist (digits (status r)) (''HTTP '' @ digits (status r)))"
proof -
  have sub: "sublist (digits (status r)) (''HTTP '' @ digits (status r))"
    by (rule sublist_append_leftI)
  note eq = request_not_ok [of fetch c endpoint opts r, OF assms]
  have unparsable: "snd (request fetch c endpoint opts) = Inl (Err (Error ''Unknown error''))"
    if "body_json r = None"
    using that by (simp add: eq get_prop_def js_or_def js_string_def)
  have no_detail: "snd (request fetch c endpoint opts)
      = Inl (Err (Error (''HTTP '' @ digits (status r))))"
    if "body_json r = Some (JObj ps)" and "\<not> truthy (map_of ps ''detail'')" for ps
    using that by (simp add: eq get_prop_def js_or_def js_string_def)
  show ?thesis
    using sub unparsable no_detail by simp
qed

theorem unparsable_body_message_witness:
  "snd (request (reply \<lparr>status = 503, body_json = None\<rparr>) (new_client ''https://x'' None)
         ''/formats'' no_options)
     = Inl (Err (Error ''Unknown error''))"
proof -
  have sent: "reply \<lparr>status = 503, body_json = None\<rparr>
      (fst (request (reply \<lparr>status = 503, body_json = None\<rparr>) (new_client ''https://x'' None)
         ''/formats'' no_options)) = Inr \<lparr>status = 503, body_json = None\<rparr>"
    by (simp add: reply_def)
  have bad: "\<not> ok \<lparr>status = 503, body_json = None\<rparr>"
    by (simp add: ok_def)
  show ?thesis
    using unparsable_body_message
      [of "reply \<lparr>status = 503, body_json = None\<rparr>" "new_client ''https://x'' None"
          "''/formats''" no_options "\<lparr>status = 503, body_json = None\<rparr>", OF sent bad]
    by simp
qed

text \<open>
  C4, as stated, covers every value of \<^verbatim>\<open>detail\<close>. An empty \<^verbatim>\<open>detail\<close> is not the
  message: a 404 with the body \<^verbatim>\<open>{"detail": ""}\<close> fails with \<^verbatim>\<open>HTTP 404\<close>.
\<close>

theorem empty_detail_falls_back:
  "snd (request (reply \<lparr>status = 404, body_json = Some (JObj [(''detail'', JStr [])])\<rparr>)
        (new_client ''https://x'' None) ''/health'' no_options)
     = Inl (Err (Error ''HTTP 404''))"
proof -
  have "digits 404 = ''404''"
    by code_simp
  then show ?thesis
    by (simp add: request_def reply_def ok_def get_prop_def js_or_def js_string_def Let_def)
qed

text \<open>
  C4 (amended): for every response outside 2xx whose body parses as a JSON object with a
  \<^verbatim>\<open>detail\<close> field whose value is a non-empty string \<open>D\<close>, the failure raised is an Error
  with the message exactly \<open>D\<close>.
\<close>

theorem detail_message:
  assumes "fetch (fst (request fetch c endpoint opts)) = Inr r" and "\<not> ok r"
    and "body_json r = Some (JObj ps)" and "map_of ps ''detail'' = Some (JStr D)"
    and "D \<noteq> []"
  shows "snd (request fetch c endpoint opts) = Inl (Err (Error D)) \<and>
         message (Err (Error D)) = Some D"
  using assms(3-5)
  by (simp add: request_not_ok [of fetch c endpoint opts r, OF assms(1,2)]
      get_prop_def js_or_def js_string_def)

theorem detail_message_witness:
  "snd (request
         (reply \<lparr>status = 401, body_json = Some (JObj [(''detail'', JStr ''Invalid API key'')])\<rparr>)
         (new_client ''https://x'' None) ''/generate'' no_options)
     = Inl (Err (Error ''Invalid API key''))"
proof -
  let ?r = "\<lparr>status = 401, body_json = Some (JObj [(''detail'', JStr ''Invalid API key'')])\<rparr>"
  have sent: "reply ?r (fst (request (reply ?r) (new_client ''https://x'' None)
      ''/generate'' no_options)) = Inr ?r"
    by (simp add: reply_def)
  have bad: "\<not> ok ?r"
    by (simp add: ok_def)
  show ?thesis
    using detail_message
      [of "reply ?r" "new_client ''https://x'' None" "''/generate''" no_options ?r
          "[(''detail'', JStr ''Invalid API key'')]" "''Invalid API key''", OF sent bad]
    by simp
qed

section \<open>Properties of generate\<close>

text \<open>
  C3: called with a string topic, a format that is a string or left out, an additional
  context that is a string or left out and a prompt-only flag that is a boolean or left
  out, both variants of \<^verbatim>\<open>generate\<close> send a POST to the base address followed by
  \<^verbatim>\<open>/generate\<close> whose body is the object of \<^verbatim>\<open>topic\<close>, \<^verbatim>\<open>format\<close> (\<^verbatim>\<open>article\<close> when left
  out), \<^verbatim>\<open>additional_context\<close> (the empty string when left out, so a string in every case)
  and \<^verbatim>\<open>prompt_only\<close> (false when left out).
\<close>

theorem generate_request_body:
  fixes t :: string and f a :: "string option" and p :: "bool option"
  defines "expected \<equiv> JObj
      [(''topic'', JStr t),
       (''format'', JStr (case f of None \<Rightarrow> ''article'' | Some x \<Rightarrow> x)),
       (''additional_context'', JStr (case a of None \<Rightarrow> [] | Some x \<Rightarrow> x)),
       (''prompt_only'', JBool (case p of None \<Rightarrow> False | Some x \<Rightarrow> x))]"
  shows "body (fst (generate_js fetch c (Some (JStr t)) (map_option JStr f)
                 (map_option JStr a) (map_option JBool p))) = Some expected \<and>
         body (fst (generate_ts fetch c (Some (JStr t)) (map_option JStr f)
                 (map_option JStr a) (map_option JBool p))) = Some expected \<and>
         http_method (fst (generate_js fetch c (Some (JStr t)) (map_option JStr f)
                 (map_option JStr a) (map_option JBool p))) = Some ''POST'' \<and>
         http_method (fst (generate_ts fetch c (Some (JStr t)) (map_option JStr f)
                 (map_option JStr a) (map_option JBool p))) = Some ''POST'' \<and>
         url (fst (generate_js fetch c (Some (JStr t)) (map_option JStr f)
                 (map_option JStr a) (map_option JBool p))) = baseUrl c @ ''/generate'' \<and>
         url (fst (generate_ts fetch c (Some (JStr t)) (map_option JStr f)
                 (map_option JStr a) (map_option JBool p))) = baseUrl c @ ''/generate''"
  unfolding expected_def
  by (cases f; cases a; cases p)
     (simp_all add: generate_js_def generate_ts_def request_def Let_def default_param_def
        JSON_stringify_def js_or_def)

theorem generate_request_body_witness:
  "body (fst (generate_js offline (new_client ''https://api.example.com/'' None)
           (Some (JStr ''Finding inner peace'')) (Some (JStr ''article'')) None None))
     = Some (JObj [(''topic'', JStr ''Finding inner peace''), (''format'', JStr ''article''),
                   (''additional_context'', JStr []), (''prompt_only'', JBool False)]) \<and>
   body (fst (generate_ts offline (new_client ''https://api.example.com/'' None)
           (Some (JStr ''Finding inner peace'')) (Some (JStr ''article'')) None None))
     = Some (JObj [(''topic'', JStr ''Finding inner peace''), (''format'', JStr ''article''),
                   (''additional_context'', JStr []), (''prompt_only'', JBool False)]) \<and>
   url (fst (generate_ts offline (new_client ''https://api.example.com/'' None)
           (Some (JStr ''Finding inner peace'')) (Some (JStr ''article'')) None None))
     = ''https://api.example.com/generate''"
  using generate_request_body [of offline "new_client ''https://api.example.com/'' None"
      "''Finding inner peace''" "Some ''article''" None None]
  by (simp add: new_client_def strip_trailing_slash_def)

text \<open>
  C10, as stated, includes a \<^verbatim>\<open>null\<close> additional context. There the JavaScript client
  sends \<^verbatim>\<open>null\<close> and the TypeScript client the empty string.
\<close>

theorem generate_js_ts_differ_on_null:
  "body (fst (generate_js offline (new_client ''https://x'' None) (Some (JStr ''t'')) None
           (Some JNull) None))
     = Some (JObj [(''topic'', JStr ''t''), (''format'', JStr ''article''),
                   (''additional_context'', JNull), (''prompt_only'', JBool False)]) \<and>
   body (fst (generate_ts offline (new_client ''https://x'' None) (Some (JStr ''t'')) None
           (Some JNull) None))
     = Some (JObj [(''topic'', JStr ''t''), (''format'', JStr ''article''),
                   (''additional_context'', JStr []), (''prompt_only'', JBool False)]) \<and>
   generate_js offline (new_client ''https://x'' None) (Some (JStr ''t'')) None (Some JNull) None
     \<noteq> generate_ts offline (new_client ''https://x'' None) (Some (JStr ''t'')) None
         (Some JNull) None"
  by (simp add: generate_js_def generate_ts_def request_def Let_def default_param_def
      JSON_stringify_def js_or_def)

text \<open>
  C10 (amended): the two variants of \<^verbatim>\<open>generate\<close> send the same request and have the same
  outcome, whatever the topic, format and prompt-only flag, exactly when the additional
  context is left out or \<^verbatim>\<open>undefined\<close>, the empty string, or a truthy value (every
  non-empty string is one). For \<^verbatim>\<open>null\<close> the bodies differ.
\<close>

theorem generate_js_ts_agree:
  "generate_js fetch c topic format additionalContext promptOnly
      = generate_ts fetch c topic format additionalContext promptOnly
   \<longleftrightarrow> (additionalContext = None \<or> additionalContext = Some (JStr []) \<or>
         truthy additionalContext)"
proof -
  have d: "\<exists>v. default_param x d = Some v" for x d
    by (simp add: default_param_def split: option.splits)
  obtain fv where fv: "default_param format (JStr ''article'') = Some fv"
    using d by blast
  obtain pv where pv: "default_param promptOnly (JBool False) = Some pv"
    using d by blast
  show ?thesis
    by (cases topic; cases additionalContext)
       (auto simp add: generate_js_def generate_ts_def request_def Let_def fv pv
          JSON_stringify_def js_or_def default_param_def [of "Some _"]
          default_param_def [of None])
qed

theorem generate_js_ts_agree_witness:
  "generate_js offline (new_client ''https://x'' None) (Some (JStr ''t'')) None None None
     = generate_ts offline (new_client ''https://x'' None) (Some (JStr ''t'')) None None None"
  using generate_js_ts_agree [of offline "new_client ''https://x'' None" "Some (JStr ''t'')"
      None None None]
  by simp

subsection \<open>The article shorthand\<close>

lemma default_param_idem: "default_param (default_param a d) d = default_param a d"
  by (simp add: default_param_def split: option.splits)

lemma generate_js_context_default:
  "generate_js fetch c topic format (default_param context (JStr [])) promptOnly
     = generate_js fetch c topic format context promptOnly"
  by (simp add: generate_js_def default_param_idem)

lemma generateArticle_js_eq:
  "generateArticle_js fetch c topic context =
     (fst (generate_js fetch c topic (Some (JStr ''article'')) context None),
      then_content (snd (generate_js fetch c topic (Some (JStr ''article'')) context None)))"
  by (simp add: generateArticle_js_def Let_def generate_js_context_default split_beta)

lemma generateArticle_ts_eq:
  "generateArticle_ts fetch c topic context =
     (fst (generate_ts fetch c topic (Some (JStr ''article'')) context None),
      then_content (snd (generate_ts fetch c topic (Some (JStr ''article'')) context None)))"
  by (simp add: generateArticle_ts_def Let_def split_beta)

lemma then_content_cases:
  "(\<forall>t. p = Inl t \<longrightarrow> then_content p = Inl t) \<and>
   (\<forall>ps. p = Inr (JObj ps) \<longrightarrow> then_content p = Inr (map_of ps ''content'')) \<and>
   (p = Inr JNull \<longrightarrow> then_content p = Inl (Err (TypeError ''content''))) \<and>
   ((\<exists>t. then_content p = Inl t) \<longleftrightarrow> (\<exists>t. p = Inl t) \<or> p = Inr JNull)"
proof (cases p)
  case (Inl t)
  then show ?thesis by (simp add: then_content_def)
next
  case (Inr r)
  then show ?thesis by (cases r) (simp_all add: then_content_def get_prop_def)
qed

lemma request_resolved:
  assumes "snd (request fetch c endpoint opts) = Inr j"
  shows "\<exists>r. fetch (fst (request fetch c endpoint opts)) = Inr r \<and> ok r \<and> body_json r = Some j"
  using assms
  by (auto simp add: request_def Let_def split: sum.splits if_splits option.splits)

lemma generate_resolved:
  "snd (generate_js fetch c topic format context promptOnly) = Inr j \<Longrightarrow>
     \<exists>call r. fetch call = Inr r \<and> ok r \<and> body_json r = Some j"
  "snd (generate_ts fetch c topic format context promptOnly) = Inr j \<Longrightarrow>
     \<exists>call r. fetch call = Inr r \<and> ok r \<and> body_json r = Some j"
  unfolding generate_js_def generate_ts_def Let_def
  by (blast dest: request_resolved)+

text \<open>
  C8: for every topic and context, in both variants, \<^verbatim>\<open>generateArticle\<close> issues the request
  that \<^verbatim>\<open>generate\<close> with the format \<^verbatim>\<open>article\<close> issues, and its outcome is that of
  reading \<^verbatim>\<open>content\<close> off the awaited result of that \<^verbatim>\<open>generate\<close>: when \<^verbatim>\<open>generate\<close>
  rejects it rejects with the same failure, and when \<^verbatim>\<open>generate\<close> resolves to an object it
  resolves to exactly the \<^verbatim>\<open>content\<close> field of that object. Where the result of
  \<^verbatim>\<open>generate\<close> is not \<^verbatim>\<open>null\<close>, and so whenever no 2xx response has the body \<^verbatim>\<open>null\<close>,
  it rejects exactly when \<^verbatim>\<open>generate\<close> rejects.
\<close>

theorem generateArticle_projects_generate:
  fixes fetch :: transport
  defines "gj \<equiv> \<lambda>c topic context. generate_js fetch c topic (Some (JStr ''article'')) context None"
    and "gt \<equiv> \<lambda>c topic context. generate_ts fetch c topic (Some (JStr ''article'')) context None"
  shows
    "fst (generateArticle_js fetch c topic context) = fst (gj c topic context) \<and>
     snd (generateArticle_js fetch c topic context) = then_content (snd (gj c topic context)) \<and>
     (\<forall>t. snd (gj c topic context) = Inl t \<longrightarrow>
        snd (generateArticle_js fetch c topic context) = Inl t) \<and>
     (\<forall>ps. snd (gj c topic context) = Inr (JObj ps) \<longrightarrow>
        snd (generateArticle_js fetch c topic context) = Inr (map_of ps ''content'')) \<and>
     (snd (gj c topic context) \<noteq> Inr JNull \<longrightarrow>
        ((\<exists>t. snd (generateArticle_js fetch c topic context) = Inl t) \<longleftrightarrow>
         (\<exists>t. snd (gj c topic context) = Inl t))) \<and>
     fst (generateArticle_ts fetch c topic context) = fst (gt c topic context) \<and>
     snd (generateArticle_ts fetch c topic context) = then_content (snd (gt c topic context)) \<and>
     (\<forall>t. snd (gt c topic context) = Inl t \<longrightarrow>
        snd (generateArticle_ts fetch c topic context) = Inl t) \<and>
     (\<forall>ps. snd (gt c topic context) = Inr (JObj ps) \<longrightarrow>
        snd (generateArticle_ts fetch c topic context) = Inr (map_of ps ''content'')) \<and>
     (snd (gt c topic context) \<noteq> Inr JNull \<longrightarrow>
        ((\<exists>t. snd (generateArticle_ts fetch c topic context) = Inl t) \<longleftrightarrow>
         (\<exists>t. snd (gt c topic context) = Inl t))) \<and>
     ((\<forall>call r. fetch call = Inr r \<and> ok r \<longrightarrow> body_json r \<noteq> Some JNull) \<longrightarrow>
        ((\<exists>t. snd (generateArticle_js fetch c topic context) = Inl t) \<longleftrightarrow>
         (\<exists>t. snd (gj c topic context) = Inl t)) \<and>
        ((\<exists>t. snd (generateArticle_ts fetch c topic context) = Inl t) \<longleftrightarrow>
         (\<exists>t. snd (gt c topic context) = Inl t)))"
proof -
  note j = then_content_cases [of "snd (gj c topic context)"]
  note t = then_content_cases [of "snd (gt c topic context)"]
  have ej: "generateArticle_js fetch c topic context
      = (fst (gj c topic context), then_content (snd (gj c topic context)))"
    unfolding gj_def by (rule generateArticle_js_eq)
  have et: "generateArticle_ts fetch c topic context
      = (fst (gt c topic context), then_content (snd (gt c topic context)))"
    unfolding gt_def by (rule generateArticle_ts_eq)
  have nj: "snd (gj c topic context) \<noteq> Inr JNull"
    if "\<forall>call r. fetch call = Inr r \<and> ok r \<longrightarrow> body_json r \<noteq> Some JNull"
    using that generate_resolved(1) [of fetch c topic "Some (JStr ''article'')" "context" None JNull]
    unfolding gj_def by blast
  have nt: "snd (gt c topic context) \<noteq> Inr JNull"
    if "\<forall>call r. fetch call = Inr r \<and> ok r \<longrightarrow> body_json r \<noteq> Some JNull"
    using that generate_resolved(2) [of fetch c topic "Some (JStr ''article'')" "context" None JNull]
    unfolding gt_def by blast
  have rj: "(\<exists>t. then_content (snd (gj c topic context)) = Inl t) \<longleftrightarrow>
      (\<exists>t. snd (gj c topic context) = Inl t)"
    if "snd (gj c topic context) \<noteq> Inr JNull"
    using that j by blast
  have rt: "(\<exists>t. then_content (snd (gt c topic context)) = Inl t) \<longleftrightarrow>
      (\<exists>t. snd (gt c topic context) = Inl t)"
    if "snd (gt c topic context) \<noteq> Inr JNull"
    using that t by blast
  show ?thesis
    unfolding ej et fst_conv snd_conv using j t nj nt rj rt by blast
qed

theorem generateArticle_projects_generate_witness:
  "snd (generateArticle_ts
          (reply \<lparr>status = 200, body_json = Some (JObj [(''content'', JStr ''text'')])\<rparr>)
          (new_client ''https://x'' None) (Some (JStr ''t'')) None)
     = Inr (Some (JStr ''text'')) \<and>
   snd (generateArticle_js
          (reply \<lparr>status = 200, body_json = Some (JObj [(''content'', JStr ''text'')])\<rparr>)
          (new_client ''https://x'' None) (Some (JStr ''t'')) None)
     = Inr (Some (JStr ''text''))"
proof -
  let ?f = "reply \<lparr>status = 200, body_json = Some (JObj [(''content'', JStr ''text'')])\<rparr>"
  let ?c = "new_client ''https://x'' None"
  have gt: "snd (generate_ts ?f ?c (Some (JStr ''t'')) (Some (JStr ''article'')) None None)
      = Inr (JObj [(''content'', JStr ''text'')])"
    by (simp add: generate_ts_def request_def reply_def ok_def Let_def)
  have gj: "snd (generate_js ?f ?c (Some (JStr ''t'')) (Some (JStr ''article'')) None None)
      = Inr (JObj [(''content'', JStr ''text'')])"
    by (simp add: generate_js_def request_def reply_def ok_def Let_def)
  show ?thesis
    using generateArticle_projects_generate [of ?f ?c "Some (JStr ''t'')" None] gt gj
    by (simp add: then_content_def get_prop_def)
qed

section \<open>Properties of the lifecycle adapter\<close>

lemma catch_finally_fields:
  "outcome (catch_finally call s2 err) = Inl (Err (normalize err))"
  "in_flight (catch_finally call s2 err) = s2"
  "isLoading (settled (catch_finally call s2 err)) = False"
  "error (settled (catch_finally call s2 err)) = Some (normalize err)"
  "content (settled (catch_finally call s2 err)) = content s2"
  by (simp_all add: catch_finally_def Let_def)

subsection \<open>In flight\<close>

lemma hook_generate_in_flight:
  "in_flight (hook_generate fetch opts s topic format additionalContext)
     = s\<lparr>isLoading := True, error := None\<rparr>"
  by (simp add: hook_generate_def Let_def catch_finally_fields
      split: prod.splits sum.splits)

lemma hook_getPrompt_in_flight:
  "in_flight (hook_getPrompt fetch opts s topic format context)
     = s\<lparr>isLoading := True, error := None\<rparr>"
  by (simp add: hook_getPrompt_def Let_def catch_finally_fields
      split: prod.splits sum.splits)

lemma hook_getVoiceProfile_in_flight:
  "in_flight (hook_getVoiceProfile fetch opts s) = s\<lparr>isLoading := True, error := None\<rparr>"
  by (simp add: hook_getVoiceProfile_def Let_def catch_finally_fields
      split: prod.splits sum.splits)

lemma hook_getFormats_in_flight:
  "in_flight (hook_getFormats fetch opts s) = s\<lparr>isLoading := True, error := None\<rparr>"
  by (simp add: hook_getFormats_def Let_def catch_finally_fields
      split: prod.splits sum.splits)

lemma hook_shorthand_in_flight:
  "in_flight (hook_shorthand fmt fetch opts s topic context)
     = s\<lparr>isLoading := True, error := None\<rparr>"
  by (simp add: hook_shorthand_def Let_def hook_generate_in_flight)

text \<open>
  C6: whatever the state \<open>s\<close> in which a tracked method is invoked (\<^verbatim>\<open>generate\<close>,
  \<^verbatim>\<open>getPrompt\<close>, \<^verbatim>\<open>getVoiceProfile\<close>, \<^verbatim>\<open>getFormats\<close> and the four format shorthands),
  in the state it has set before the network call settles \<open>isLoading\<close> is true and
  \<open>error\<close> is \<^verbatim>\<open>null\<close>.
\<close>

theorem tracked_call_in_flight:
  "isLoading (in_flight (hook_generate fetch opts s topic format context)) \<and>
   error (in_flight (hook_generate fetch opts s topic format context)) = None \<and>
   isLoading (in_flight (hook_getPrompt fetch opts s topic format context)) \<and>
   error (in_flight (hook_getPrompt fetch opts s topic format context)) = None \<and>
   isLoading (in_flight (hook_getVoiceProfile fetch opts s)) \<and>
   error (in_flight (hook_getVoiceProfile fetch opts s)) = None \<and>
   isLoading (in_flight (hook_getFormats fetch opts s)) \<and>
   error (in_flight (hook_getFormats fetch opts s)) = None \<and>
   isLoading (in_flight (hook_generateArticle fetch opts s topic context)) \<and>
   error (in_flight (hook_generateArticle fetch opts s topic context)) = None \<and>
   isLoading (in_flight (hook_generateSocialPost fetch opts s topic context)) \<and>
   error (in_flight (hook_generateSocialPost fetch opts s topic context)) = None \<and>
   isLoading (in_flight (hook_generateClassOutline fetch opts s topic context)) \<and>
   error (in_flight (hook_generateClassOutline fetch opts s topic context)) = None \<and>
   isLoading (in_flight (hook_generateReflection fetch opts s topic context)) \<and>
   error (in_flight (hook_generateReflection fetch opts s topic context)) = None"
  by (simp add: hook_generate_in_flight hook_getPrompt_in_flight hook_getVoiceProfile_in_flight
      hook_getFormats_in_flight hook_shorthand_in_flight hook_generateArticle_def
      hook_generateSocialPost_def hook_generateClassOutline_def hook_generateReflection_def)

theorem tracked_call_in_flight_witness:
  "isLoading (in_flight (hook_generate offline \<lparr>hk_baseUrl = ''https://x'', hk_apiKey = None\<rparr>
      \<lparr>isLoading = False, error = Some (Error ''earlier''), content = Some (JStr ''old'')\<rparr>
      (Some (JStr ''t'')) None None)) \<and>
   error (in_flight (hook_generate offline \<lparr>hk_baseUrl = ''https://x'', hk_apiKey = None\<rparr>
      \<lparr>isLoading = False, error = Some (Error ''earlier''), content = Some (JStr ''old'')\<rparr>
      (Some (JStr ''t'')) None None)) = None"
  using tracked_call_in_flight [of offline "\<lparr>hk_baseUrl = ''https://x'', hk_apiKey = None\<rparr>"
      "\<lparr>isLoading = False, error = Some (Error ''earlier''), content = Some (JStr ''old'')\<rparr>"
      "Some (JStr ''t'')" None None]
  by simp

subsection \<open>Settled in failure\<close>

lemma hook_generate_failure:
  assumes "outcome (hook_generate fetch opts s topic format context) = Inl t"
  shows "\<not> isLoading (settled (hook_generate fetch opts s topic format context)) \<and>
         (\<exists>e. error (settled (hook_generate fetch opts s topic format context)) = Some e \<and>
              t = Err e) \<and>
         content (settled (hook_generate fetch opts s topic format context)) = content s"
  using assms
  by (auto simp add: hook_generate_def Let_def catch_finally_fields
      split: prod.splits sum.splits)

lemma hook_getPrompt_failure:
  assumes "outcome (hook_getPrompt fetch opts s topic format context) = Inl t"
  shows "\<not> isLoading (settled (hook_getPrompt fetch opts s topic format context)) \<and>
         (\<exists>e. error (settled (hook_getPrompt fetch opts s topic format context)) = Some e \<and>
              t = Err e) \<and>
         content (settled (hook_getPrompt fetch opts s topic format context)) = content s"
  using assms
  by (auto simp add: hook_getPrompt_def Let_def catch_finally_fields
      split: prod.splits sum.splits)

lemma hook_getVoiceProfile_failure:
  assumes "outcome (hook_getVoiceProfile fetch opts s) = Inl t"
  shows "\<not> isLoading (settled (hook_getVoiceProfile fetch opts s)) \<and>
         (\<exists>e. error (settled (hook_getVoiceProfile fetch opts s)) = Some e \<and> t = Err e) \<and>
         content (settled (hook_getVoiceProfile fetch opts s)) = content s"
  using assms
  by (auto simp add: hook_getVoiceProfile_def Let_def catch_finally_fields
      split: prod.splits sum.splits)

lemma hook_getFormats_failure:
  assumes "outcome (hook_getFormats fetch opts s) = Inl t"
  shows "\<not> isLoading (settled (hook_getFormats fetch opts s)) \<and>
         (\<exists>e. error (settled (hook_getFormats fetch opts s)) = Some e \<and> t = Err e) \<and>
         content (settled (hook_getFormats fetch opts s)) = content s"
  using assms
  by (auto simp add: hook_getFormats_def Let_def catch_finally_fields
      split: prod.splits sum.splits)

text \<open>When the hook's \<^verbatim>\<open>generate\<close> resolves, reading \<^verbatim>\<open>content\<close> off its result does not
  throw: it has been read once already.\<close>

lemma hook_generate_resolved:
  assumes "outcome (hook_generate fetch opts s topic format context) = Inr r"
  shows "\<exists>v. get_prop (Some r) ''content'' = Inr v"
  using assms
  by (auto simp add: hook_generate_def Let_def catch_finally_fields
      split: prod.splits sum.splits)

lemma hook_shorthand_failure:
  assumes "outcome (hook_shorthand fmt fetch opts s topic context) = Inl t"
  shows "\<not> isLoading (settled (hook_shorthand fmt fetch opts s topic context)) \<and>
         (\<exists>e. error (settled (hook_shorthand fmt fetch opts s topic context)) = Some e \<and>
              t = Err e) \<and>
         content (settled (hook_shorthand fmt fetch opts s topic context)) = content s"
proof (cases "outcome (hook_generate fetch opts s topic (Some (JStr fmt)) context)")
  case (Inl t')
  with assms have "t' = t"
    by (simp add: hook_shorthand_def Let_def then_content_def)
  with Inl show ?thesis
    using hook_generate_failure [of fetch opts s topic "Some (JStr fmt)" "context" t]
    by (simp add: hook_shorthand_def Let_def)
next
  case (Inr r)
  with assms hook_generate_resolved [of fetch opts s topic "Some (JStr fmt)" "context" r]
  have False
    by (auto simp add: hook_shorthand_def Let_def then_content_def)
  then show ?thesis ..
qed

text \<open>Re-raising: a rejection of the client's call is the rejection of the tracked call,
  normalised.\<close>

lemma hook_generate_reraise:
  assumes "snd (generate_ts fetch (new_client (hk_baseUrl opts) (hk_apiKey opts)) topic
                  (default_param format (JStr ''article'')) context None) = Inl err"
  shows "outcome (hook_generate fetch opts s topic format context) = Inl (Err (normalize err))"
  using assms
  by (simp add: hook_generate_def Let_def split_beta catch_finally_fields)

lemma hook_getPrompt_reraise:
  assumes "snd (generate_ts fetch (new_client (hk_baseUrl opts) (hk_apiKey opts)) topic
                  (default_param format (JStr ''article'')) context (Some (JBool True)))
             = Inl err"
  shows "outcome (hook_getPrompt fetch opts s topic format context) = Inl (Err (normalize err))"
  using assms
  by (simp add: hook_getPrompt_def Let_def split_beta catch_finally_fields)

lemma hook_getVoiceProfile_reraise:
  assumes "snd (getVoiceProfile fetch (new_client (hk_baseUrl opts) (hk_apiKey opts))) = Inl err"
  shows "outcome (hook_getVoiceProfile fetch opts s) = Inl (Err (normalize err))"
  using assms
  by (simp add: hook_getVoiceProfile_def Let_def split_beta catch_finally_fields)

lemma hook_getFormats_reraise:
  assumes "snd (getFormats fetch (new_client (hk_baseUrl opts) (hk_apiKey opts))) = Inl err"
  shows "outcome (hook_getFormats fetch opts s) = Inl (Err (normalize err))"
  using assms
  by (simp add: hook_getFormats_def Let_def split_beta catch_finally_fields)

lemma hook_shorthand_reraise:
  assumes "snd (generate_ts fetch (new_client (hk_baseUrl opts) (hk_apiKey opts)) topic
                  (Some (JStr fmt)) context None) = Inl err"
  shows "outcome (hook_shorthand fmt fetch opts s topic context) = Inl (Err (normalize err))"
  using hook_generate_reraise [of fetch opts topic "Some (JStr fmt)" "context" err s] assms
  by (simp add: hook_shorthand_def Let_def then_content_def default_param_def)

text \<open>
  C5: when a tracked call fails (\<^verbatim>\<open>generate\<close>, \<^verbatim>\<open>getPrompt\<close>, \<^verbatim>\<open>getVoiceProfile\<close>,
  \<^verbatim>\<open>getFormats\<close>, or a format shorthand, which is \<open>hook_shorthand\<close> at its format), then
  in the settled state \<open>isLoading\<close> is false, \<open>error\<close> holds the failure the caller
  receives, and \<open>content\<close> is what it was before the call; and whenever the client's call
  rejects, the tracked call rejects with that failure, normalised.
\<close>

theorem tracked_failure_settles:
  "(\<forall>t. outcome (hook_generate fetch opts s topic format context) = Inl t \<longrightarrow>
      \<not> isLoading (settled (hook_generate fetch opts s topic format context)) \<and>
      (\<exists>e. error (settled (hook_generate fetch opts s topic format context)) = Some e \<and>
           t = Err e) \<and>
      content (settled (hook_generate fetch opts s topic format context)) = content s) \<and>
   (\<forall>t. outcome (hook_getPrompt fetch opts s topic format context) = Inl t \<longrightarrow>
      \<not> isLoading (settled (hook_getPrompt fetch opts s topic format context)) \<and>
      (\<exists>e. error (settled (hook_getPrompt fetch opts s topic format context)) = Some e \<and>
           t = Err e) \<and>
      content (settled (hook_getPrompt fetch opts s topic format context)) = content s) \<and>
   (\<forall>t. outcome (hook_getVoiceProfile fetch opts s) = Inl t \<longrightarrow>
      \<not> isLoading (settled (hook_getVoiceProfile fetch opts s)) \<and>
      (\<exists>e. error (settled (hook_getVoiceProfile fetch opts s)) = Some e \<and> t = Err e) \<and>
      content (settled (hook_getVoiceProfile fetch opts s)) = content s) \<and>
   (\<forall>t. outcome (hook_getFormats fetch opts s) = Inl t \<longrightarrow>
      \<not> isLoading (settled (hook_getFormats fetch opts s)) \<and>
      (\<exists>e. error (settled (hook_getFormats fetch opts s)) = Some e \<and> t = Err e) \<and>
      content (settled (hook_getFormats fetch opts s)) = content s) \<and>
   (\<forall>t. outcome (hook_shorthand fmt fetch opts s topic context) = Inl t \<longrightarrow>
      \<not> isLoading (settled (hook_shorthand fmt fetch opts s topic context)) \<and>
      (\<exists>e. error (settled (hook_shorthand fmt fetch opts s topic context)) = Some e \<and>
           t = Err e) \<and>
      content (settled (hook_shorthand fmt fetch opts s topic context)) = content s) \<and>
   (\<forall>err. snd (generate_ts fetch (new_client (hk_baseUrl opts) (hk_apiKey opts)) topic
                 (default_param format (JStr ''article'')) context None) = Inl err \<longrightarrow>
      outcome (hook_generate fetch opts s topic format context) = Inl (Err (normalize err))) \<and>
   (\<forall>err. snd (generate_ts fetch (new_client (hk_baseUrl opts) (hk_apiKey opts)) topic
                 (default_param format (JStr ''article'')) context (Some (JBool True)))
             = Inl err \<longrightarrow>
      outcome (hook_getPrompt fetch opts s topic format context) = Inl (Err (normalize err))) \<and>
   (\<forall>err. snd (getVoiceProfile fetch (new_client (hk_baseUrl opts) (hk_apiKey opts)))
             = Inl err \<longrightarrow>
      outcome (hook_getVoiceProfile fetch opts s) = Inl (Err (normalize err))) \<and>
   (\<forall>err. snd (getFormats fetch (new_client (hk_baseUrl opts) (hk_apiKey opts))) = Inl err \<longrightarrow>
      outcome (hook_getFormats fetch opts s) = Inl (Err (normalize err))) \<and>
   (\<forall>err. snd (generate_ts fetch (new_client (hk_baseUrl opts) (hk_apiKey opts)) topic
                 (Some (JStr fmt)) context None) = Inl err \<longrightarrow>
      outcome (hook_shorthand fmt fetch opts s topic context) = Inl (Err (normalize err)))"
  using hook_generate_failure [of fetch opts s topic format "context"]
    hook_getPrompt_failure [of fetch opts s topic format "context"]
    hook_getVoiceProfile_failure [of fetch opts s]
    hook_getFormats_failure [of fetch opts s]
    hook_shorthand_failure [of fmt fetch opts s topic "context"]
    hook_generate_reraise [of fetch opts topic format "context" _ s]
    hook_getPrompt_reraise [of fetch opts topic format "context" _ s]
    hook_getVoiceProfile_reraise [of fetch opts _ s]
    hook_getFormats_reraise [of fetch opts _ s]
    hook_shorthand_reraise [of fetch opts topic fmt "context" _ s]
  by blast

theorem tracked_failure_settles_witness:
  "outcome (hook_generate offline \<lparr>hk_baseUrl = ''https://x'', hk_apiKey = None\<rparr>
      \<lparr>isLoading = False, error = None, content = Some (JStr ''old'')\<rparr>
      (Some (JStr ''t'')) None None) = Inl (Err (OtherError ''Failed to fetch'')) \<and>
   \<not> isLoading (settled (hook_generate offline \<lparr>hk_baseUrl = ''https://x'', hk_apiKey = None\<rparr>
      \<lparr>isLoading = False, error = None, content = Some (JStr ''old'')\<rparr>
      (Some (JStr ''t'')) None None)) \<and>
   error (settled (hook_generate offline \<lparr>hk_baseUrl = ''https://x'', hk_apiKey = None\<rparr>
      \<lparr>isLoading = False, error = None, content = Some (JStr ''old'')\<rparr>
      (Some (JStr ''t'')) None None)) = Some (OtherError ''Failed to fetch'') \<and>
   content (settled (hook_generate offline \<lparr>hk_baseUrl = ''https://x'', hk_apiKey = None\<rparr>
      \<lparr>isLoading = False, error = None, content = Some (JStr ''old'')\<rparr>
      (Some (JStr ''t'')) None None)) = Some (JStr ''old'')"
proof -
  let ?o = "\<lparr>hk_baseUrl = ''https://x'', hk_apiKey = None\<rparr>"
  let ?s = "\<lparr>isLoading = False, error = None, content = Some (JStr ''old'')\<rparr>"
  have rejected: "snd (generate_ts offline (new_client (hk_baseUrl ?o) (hk_apiKey ?o))
      (Some (JStr ''t'')) (default_param None (JStr ''article'')) None None)
      = Inl (Err (OtherError ''Failed to fetch''))"
    by (simp add: generate_ts_def request_def offline_def Let_def)
  note settles = tracked_failure_settles [of offline ?o ?s "Some (JStr ''t'')" None None]
  from settles rejected
  have out: "outcome (hook_generate offline ?o ?s (Some (JStr ''t'')) None None)
      = Inl (Err (OtherError ''Failed to fetch''))"
    by simp
  from settles out show ?thesis
    by auto
qed

text \<open>
  C9: in every state, \<^verbatim>\<open>clearError\<close> sets \<open>error\<close> to \<^verbatim>\<open>null\<close> and leaves \<open>content\<close> and
  \<open>isLoading\<close> as they are, and \<^verbatim>\<open>clearContent\<close> sets \<open>content\<close> to \<^verbatim>\<open>null\<close> and leaves
  \<open>error\<close> and \<open>isLoading\<close> as they are.
\<close>

theorem clear_operations_frame:
  "error (clearError s) = None \<and>
   content (clearError s) = content s \<and>
   isLoading (clearError s) = isLoading s \<and>
   content (clearContent s) = Some JNull \<and>
   error (clearContent s) = error s \<and>
   isLoading (clearContent s) = isLoading s"
  by (simp add: clearError_def clearContent_def)

theorem clear_operations_frame_witness:
  "clearError \<lparr>isLoading = True, error = Some (Error ''Invalid API key''),
               content = Some (JStr ''old'')\<rparr>
     = \<lparr>isLoading = True, error = None, content = Some (JStr ''old'')\<rparr> \<and>
   clearContent \<lparr>isLoading = True, error = Some (Error ''Invalid API key''),
                 content = Some (JStr ''old'')\<rparr>
     = \<lparr>isLoading = True, error = Some (Error ''Invalid API key''), content = Some JNull\<rparr>"
proof -
  let ?s = "\<lparr>isLoading = True, error = Some (Error ''Invalid API key''),
             content = Some (JStr ''old'')\<rparr>"
  have "clearError ?s = \<lparr>isLoading = isLoading (clearError ?s), error = error (clearError ?s),
      content = content (clearError ?s)\<rparr>"
    by simp
  moreover have "clearContent ?s = \<lparr>isLoading = isLoading (clearContent ?s),
      error = error (clearContent ?s), content = content (clearContent ?s)\<rparr>"
    by simp
  ultimately show ?thesis
    using clear_operations_frame [of ?s] by simp
qed

end
